theory Spec2Isabelle
  imports Complex_Main
begin

section \<open>Python values used by the analyzer\<close>

text \<open>
  A Python \<open>str\<close> and a Python \<open>bytes\<close> value are both modelled as \<open>string\<close>: one
  \<open>char\<close> of the model is one code point below 256 of a \<open>str\<close>, or one byte of a
  \<open>bytes\<close> value. Wall-clock readings (\<open>time.time()\<close>, \<open>os.path.getmtime\<close>,
  \<open>datetime.utcnow()\<close>) are seconds as \<open>real\<close>; the rounding of Python floats is not
  modelled.
\<close>

type_synonym timestamp = real

text \<open>
  The exception classes that the handlers of \<open>main.py\<close> and \<open>tasks.py\<close> tell apart,
  the two that the file operations raise, and the two that a database session raises. Each value carries \<open>str(e)\<close>.
  \<open>OtherException\<close> is any class that is none of the others; every class here is a
  subclass of Python's \<open>Exception\<close>.
\<close>

datatype py_exn =
    ValueError string
  | FileNotFoundError string
  | PermissionError string
  | IntegrityError string
  | PendingRollbackError string
  | SoftTimeLimitExceeded string
  | OtherException string

fun str_exn :: "py_exn \<Rightarrow> string" where
  "str_exn (ValueError m) = m"
| "str_exn (FileNotFoundError m) = m"
| "str_exn (PermissionError m) = m"
| "str_exn (IntegrityError m) = m"
| "str_exn (PendingRollbackError m) = m"
| "str_exn (SoftTimeLimitExceeded m) = m"
| "str_exn (OtherException m) = m"

subsection \<open>String methods\<close>

text \<open>
  \<open>str.lower()\<close> on the ASCII letters. Other code points are left as they are: none of
  them lowers to one of the characters of \<open>.pdf\<close>, the only suffix the program tests
  after lowering.
\<close>

definition lower_char :: "char \<Rightarrow> char" where
  "lower_char c =
     (case map_of (zip ''ABCDEFGHIJKLMNOPQRSTUVWXYZ'' ''abcdefghijklmnopqrstuvwxyz'') c of
        None \<Rightarrow> c
      | Some l \<Rightarrow> l)"

definition lower :: "string \<Rightarrow> string" where
  "lower s = map lower_char s"

definition endswith :: "string \<Rightarrow> string \<Rightarrow> bool" where
  "endswith s suffix =
     (length suffix \<le> length s \<and> drop (length s - length suffix) s = suffix)"

definition startswith :: "string \<Rightarrow> string \<Rightarrow> bool" where
  "startswith s prefix = (take (length prefix) s = prefix)"

text \<open>\<open>str.isspace\<close> on one code point below 256, and \<open>str.strip()\<close>.\<close>

definition is_space :: "char \<Rightarrow> bool" where
  "is_space c =
     (let n = (of_char c :: nat)
      in (9 \<le> n \<and> n \<le> 13) \<or> (28 \<le> n \<and> n \<le> 32) \<or> n = 133 \<or> n = 160)"

definition strip :: "string \<Rightarrow> string" where
  "strip s = rev (dropWhile is_space (rev (dropWhile is_space s)))"

section \<open>The file system\<close>

text \<open>
  A path names at most one regular file. \<open>readable\<close> is false when \<open>open(path, 'rb')\<close>
  raises, \<open>removable\<close> is false when \<open>os.remove(path)\<close> raises.
\<close>

record file_node =
  content :: string
  mtime :: timestamp
  readable :: bool
  removable :: bool

type_synonym filesystem = "string \<Rightarrow> file_node option"

definition os_path_exists :: "filesystem \<Rightarrow> string \<Rightarrow> bool" where
  "os_path_exists fs p = (fs p \<noteq> None)"

definition os_path_getsize :: "filesystem \<Rightarrow> string \<Rightarrow> py_exn + nat" where
  "os_path_getsize fs p =
     (case fs p of
        None \<Rightarrow> Inl (FileNotFoundError p)
      | Some f \<Rightarrow> Inr (length (content f)))"

definition os_path_getmtime :: "filesystem \<Rightarrow> string \<Rightarrow> py_exn + timestamp" where
  "os_path_getmtime fs p =
     (case fs p of
        None \<Rightarrow> Inl (FileNotFoundError p)
      | Some f \<Rightarrow> Inr (mtime f))"

text \<open>\<open>with open(p, 'rb') as f: f.read(n)\<close>\<close>

definition open_read :: "filesystem \<Rightarrow> string \<Rightarrow> nat \<Rightarrow> py_exn + string" where
  "open_read fs p n =
     (case fs p of
        None \<Rightarrow> Inl (FileNotFoundError p)
      | Some f \<Rightarrow> if readable f then Inr (take n (content f)) else Inl (PermissionError p))"

definition os_remove :: "filesystem \<Rightarrow> string \<Rightarrow> py_exn + filesystem" where
  "os_remove fs p =
     (case fs p of
        None \<Rightarrow> Inl (FileNotFoundError p)
      | Some f \<Rightarrow> if removable f then Inr (fs(p := None)) else Inl (PermissionError p))"

section \<open>\<open>main.py\<close>: validation of an uploaded PDF\<close>

definition MAX_FILE_SIZE :: nat where
  "MAX_FILE_SIZE = 10 * 1024 * 1024"

text \<open>The body of the \<open>try\<close> of \<open>validate_pdf_file\<close>: \<open>Inl\<close> is an exception it raises.\<close>

definition validate_pdf_file_try :: "filesystem \<Rightarrow> string \<Rightarrow> py_exn + bool" where
  "validate_pdf_file_try fs file_path =
     (if \<not> os_path_exists fs file_path then Inr False
      else if \<not> endswith (lower file_path) ''.pdf'' then Inr False
      else case os_path_getsize fs file_path of
             Inl e \<Rightarrow> Inl e
           | Inr file_size \<Rightarrow>
               if file_size > MAX_FILE_SIZE then Inr False
               else case open_read fs file_path 4 of
                      Inl e \<Rightarrow> Inl e
                    | Inr header \<Rightarrow> if header \<noteq> ''%PDF'' then Inr False else Inr True)"

text \<open>\<open>validate_pdf_file\<close> with its \<open>except Exception: return False\<close>.\<close>

definition validate_pdf_file :: "filesystem \<Rightarrow> string \<Rightarrow> py_exn + bool" where
  "validate_pdf_file fs file_path =
     (case validate_pdf_file_try fs file_path of
        Inl e \<Rightarrow> Inr False
      | Inr b \<Rightarrow> Inr b)"

section \<open>\<open>main.py\<close>: text extraction\<close>

text \<open>\<open>str.split()\<close> with no argument: the maximal runs of characters that are not white space.\<close>

fun split_from :: "string \<Rightarrow> string \<Rightarrow> string list" where
  "split_from word [] = (if word = [] then [] else [word])"
| "split_from word (c # cs) =
     (if is_space c
      then (if word = [] then split_from [] cs else word # split_from [] cs)
      else split_from (word @ [c]) cs)"

definition split :: "string \<Rightarrow> string list" where
  "split s = split_from [] s"

text \<open>\<open>sep.join(words)\<close>\<close>

fun join :: "string \<Rightarrow> string list \<Rightarrow> string" where
  "join sep [] = []"
| "join sep [w] = w"
| "join sep (w # v # ws) = w @ sep @ join sep (v # ws)"

definition newline :: string where
  "newline = [CHR 0x0A]"

text \<open>
  The collaborators the program calls and does not implement. \<open>load_data\<close> is
  \<open>PDFReader().load_data(file_path)\<close>, giving the content of each document it reads.
  \<open>kickoff\<close> is \<open>str(Crew(agents=[a], tasks=[t]).kickoff(crew_input))\<close> for the crew of one
  stage: it acts on the state \<open>'w\<close> of the world outside the program, which the program
  passes from each call to the next, and returns the stage's text or raises. Either
  collaborator may raise. A crew reads its input and does not change it.
\<close>

datatype stage = Verification | FinancialAnalysis | InvestmentAnalysis | RiskAssessment

record crew_input =
  input_query :: string
  document_content :: string

record 'w capabilities =
  load_data :: "filesystem \<Rightarrow> string \<Rightarrow> py_exn + string list"
  kickoff :: "stage \<Rightarrow> crew_input \<Rightarrow> 'w \<Rightarrow> (py_exn + string) \<times> 'w"

definition extract_pdf_text :: "'w capabilities \<Rightarrow> filesystem \<Rightarrow> string \<Rightarrow> py_exn + string" where
  "extract_pdf_text cap fs file_path =
     (case load_data cap fs file_path of
        Inl e \<Rightarrow> Inl e
      | Inr documents \<Rightarrow>
          Inr (strip (concat (map (\<lambda>doc. join '' '' (split doc) @ newline) documents))))"

section \<open>\<open>main.py\<close>: the four-stage pipeline\<close>

definition max_chars :: nat where
  "max_chars = 15000"

definition truncation_marker :: string where
  "truncation_marker = newline @ newline @ ''[Document truncated due to length...]''"

text \<open>Lines 125 to 127 of \<open>run_financial_analysis_crew\<close>.\<close>

definition truncate_document :: "string \<Rightarrow> string" where
  "truncate_document text =
     (if length text > max_chars then take max_chars text @ truncation_marker else text)"

text \<open>The dictionary \<open>run_financial_analysis_crew\<close> returns, by key.\<close>

record crew_results =
  verification :: string
  analysis :: string
  investment :: string
  risk :: string

text \<open>
  \<open>run_financial_analysis_crew\<close>, from a state of the outside world: the dictionary of
  results or the exception raised, and the state the calls to the crews have left. Its
  \<open>except Exception\<close> logs and raises the same exception again.
\<close>

definition run_financial_analysis_crew ::
  "'w capabilities \<Rightarrow> filesystem \<Rightarrow> string \<Rightarrow> string \<Rightarrow> 'w
   \<Rightarrow> (py_exn + crew_results) \<times> 'w" where
  "run_financial_analysis_crew cap fs query file_path w =
     (case validate_pdf_file fs file_path of
        Inl e \<Rightarrow> (Inl e, w)
      | Inr valid \<Rightarrow>
        if \<not> valid then (Inl (ValueError ''Invalid or missing PDF file''), w)
        else case extract_pdf_text cap fs file_path of
          Inl e \<Rightarrow> (Inl e, w)
        | Inr text \<Rightarrow>
          if text = [] then (Inl (ValueError ''Could not extract text from PDF''), w)
          else
            let crew_input = \<lparr>input_query = query,
                               document_content = truncate_document text\<rparr>
            in case kickoff cap Verification crew_input w of
              (Inl e, w1) \<Rightarrow> (Inl e, w1)
            | (Inr verification_result, w1) \<Rightarrow>
              case kickoff cap FinancialAnalysis crew_input w1 of
                (Inl e, w2) \<Rightarrow> (Inl e, w2)
              | (Inr analysis_result, w2) \<Rightarrow>
                case kickoff cap InvestmentAnalysis crew_input w2 of
                  (Inl e, w3) \<Rightarrow> (Inl e, w3)
                | (Inr investment_result, w3) \<Rightarrow>
                  case kickoff cap RiskAssessment crew_input w3 of
                    (Inl e, w4) \<Rightarrow> (Inl e, w4)
                  | (Inr risk_result, w4) \<Rightarrow>
                      (Inr \<lparr>verification = verification_result,
                            analysis = analysis_result,
                            investment = investment_result, risk = risk_result\<rparr>, w4))"

section \<open>\<open>db_models.py\<close>: the tables and their helpers\<close>

text \<open>
  One record per mapped class, one list per table, rows in insertion order. The column
  \<open>result_metadata\<close> and the table of \<open>User\<close> bear on no property below and are left
  out. Two constraints of the schema are modelled, each raising \<open>IntegrityError\<close> when a
  write violates it: the foreign key of \<open>analysis_results.analysis_id\<close> and the
  uniqueness of \<open>analyses.file_id\<close>. Lost connections and the constraints on user ids
  and task ids are not modelled. \<open>datetime.utcnow()\<close> is the argument \<open>now\<close> of the
  operation that reads it.
\<close>

record analysis_row =
  ident :: int
  user_id :: "int option"
  file_id :: string
  filename :: string
  query :: string
  status :: string
  task_id :: "string option"
  error_message :: "string option"
  created_at :: timestamp
  updated_at :: timestamp
  completed_at :: "timestamp option"

record analysis_result_row =
  result_ident :: int
  analysis_id :: int
  verification_text :: string
  financial_analysis :: string
  investment_recommendations :: string
  risk_assessment :: string
  processing_time :: "int option"
  result_created_at :: timestamp

record audit_log_row =
  log_user_id :: "int option"
  action :: string
  resource_type :: string
  resource_id :: "int option"
  log_status :: string
  details :: "string option"
  ip_address :: "string option"
  log_created_at :: timestamp

record database =
  analyses :: "analysis_row list"
  analysis_results :: "analysis_result_row list"
  audit_logs :: "audit_log_row list"

text \<open>The next value of an autoincrement primary key.\<close>

definition next_ident :: "int list \<Rightarrow> int" where
  "next_ident used = fold max used 0 + 1"

text \<open>
  Python truthiness of an optional string: \<open>None\<close> and the empty string are false. An
  optional integer such as \<open>analysis_id\<close> is false when it is \<open>None\<close> or 0.
\<close>

definition truthy_str :: "string option \<Rightarrow> bool" where
  "truthy_str x = (case x of None \<Rightarrow> False | Some s \<Rightarrow> s \<noteq> [])"

definition create_analysis ::
  "database \<Rightarrow> timestamp \<Rightarrow> string \<Rightarrow> string \<Rightarrow> string \<Rightarrow> int option
   \<Rightarrow> database \<times> analysis_row" where
  "create_analysis db now new_file_id new_filename new_query new_user_id =
     (let a = \<lparr>ident = next_ident (map ident (analyses db)), user_id = new_user_id,
                file_id = new_file_id, filename = new_filename, query = new_query,
                status = ''queued'', task_id = None, error_message = None,
                created_at = now, updated_at = now, completed_at = None\<rparr>
      in (db\<lparr>analyses := analyses db @ [a]\<rparr>, a))"

text \<open>\<open>db.query(Analysis).filter(Analysis.id == analysis_id).first()\<close>\<close>

definition get_analysis :: "database \<Rightarrow> int \<Rightarrow> analysis_row option" where
  "get_analysis db i = find (\<lambda>a. ident a = i) (analyses db)"

definition get_analysis_by_file_id :: "database \<Rightarrow> string \<Rightarrow> analysis_row option" where
  "get_analysis_by_file_id db f = find (\<lambda>a. file_id a = f) (analyses db)"

text \<open>Writing back the row that \<open>first()\<close> returned.\<close>

fun store_row :: "analysis_row \<Rightarrow> analysis_row list \<Rightarrow> analysis_row list" where
  "store_row a [] = []"
| "store_row a (x # xs) = (if ident x = ident a then a # xs else x # store_row a xs)"

definition update_analysis_status ::
  "database \<Rightarrow> timestamp \<Rightarrow> int \<Rightarrow> string \<Rightarrow> string option \<Rightarrow> string option
   \<Rightarrow> database \<times> analysis_row option" where
  "update_analysis_status db now i new_status new_task_id new_error_message =
     (case find (\<lambda>a. ident a = i) (analyses db) of
        None \<Rightarrow> (db, None)
      | Some a0 \<Rightarrow>
          let a1 = a0\<lparr>status := new_status\<rparr>;
              a2 = (if truthy_str new_task_id then a1\<lparr>task_id := new_task_id\<rparr> else a1);
              a3 = (if truthy_str new_error_message
                    then a2\<lparr>error_message := new_error_message\<rparr> else a2);
              a4 = (if new_status = ''completed'' then a3\<lparr>completed_at := Some now\<rparr> else a3);
              a5 = a4\<lparr>updated_at := now\<rparr>
          in (db\<lparr>analyses := store_row a5 (analyses db)\<rparr>, Some a5))"

text \<open>
  \<open>create_analysis_result\<close>: its commit raises when no row of \<open>analyses\<close> has the id
  given, and then nothing is written.
\<close>

definition create_analysis_result ::
  "database \<Rightarrow> timestamp \<Rightarrow> int \<Rightarrow> string \<Rightarrow> string \<Rightarrow> string \<Rightarrow> string \<Rightarrow> int option
   \<Rightarrow> py_exn + database \<times> analysis_result_row" where
  "create_analysis_result db now i v fa ir ra pt =
     (if find (\<lambda>a. ident a = i) (analyses db) = None
      then Inl (IntegrityError ''analysis_results.analysis_id: no such analysis'')
      else
        let r = \<lparr>result_ident = next_ident (map result_ident (analysis_results db)),
                 analysis_id = i, verification_text = v, financial_analysis = fa,
                 investment_recommendations = ir, risk_assessment = ra,
                 processing_time = pt, result_created_at = now\<rparr>
        in Inr (db\<lparr>analysis_results := analysis_results db @ [r]\<rparr>, r))"

definition log_audit ::
  "database \<Rightarrow> timestamp \<Rightarrow> string \<Rightarrow> string \<Rightarrow> string \<Rightarrow> int option \<Rightarrow> int option
   \<Rightarrow> string option \<Rightarrow> database" where
  "log_audit db now act res_type st uid res_id det =
     db\<lparr>audit_logs := audit_logs db @
        [\<lparr>log_user_id = uid, action = act, resource_type = res_type, resource_id = res_id,
          log_status = st, details = det, ip_address = None, log_created_at = now\<rparr>]\<rparr>"

text \<open>
  A \<open>Session\<close>: the tables it writes to, and whether a commit that failed has left its
  transaction rolled back. From then on every use of the session raises
  \<open>PendingRollbackError\<close>, until \<open>rollback()\<close> is called.
\<close>

record session =
  tables :: database
  rolled_back :: bool

text \<open>\<open>next(get_db())\<close> and \<open>get_db_session()\<close>: a new session.\<close>

definition new_session :: "database \<Rightarrow> session" where
  "new_session db = \<lparr>tables = db, rolled_back = False\<rparr>"

text \<open>
  A write \<open>f\<close> made through a session: it raises at once on a session left rolled back;
  otherwise it is applied to the tables, and if it raises the tables stay as they were and
  the session is left rolled back.
\<close>

definition in_session ::
  "session \<Rightarrow> (database \<Rightarrow> py_exn + database) \<Rightarrow> session \<times> py_exn option" where
  "in_session s f =
     (if rolled_back s
      then (s, Some (PendingRollbackError ''the transaction of this Session has been rolled back''))
      else case f (tables s) of
             Inl e \<Rightarrow> (s\<lparr>rolled_back := True\<rparr>, Some e)
           | Inr db' \<Rightarrow> (s\<lparr>tables := db'\<rparr>, None))"

section \<open>\<open>tasks.py\<close>: the analysis task\<close>

text \<open>\<open>int(x)\<close> of a float truncates towards zero; \<open>str(n)\<close> of an integer is decimal.\<close>

definition py_int :: "real \<Rightarrow> int" where
  "py_int x = (if x \<ge> 0 then \<lfloor>x\<rfloor> else \<lceil>x\<rceil>)"

fun str_nat :: "nat \<Rightarrow> string" where
  "str_nat n =
     (if n < 10 then [''0123456789'' ! n]
      else str_nat (n div 10) @ [''0123456789'' ! (n mod 10)])"

declare str_nat.simps [simp del]

definition str_int :: "int \<Rightarrow> string" where
  "str_int i = (if i < 0 then ''-'' @ str_nat (nat (- i)) else str_nat (nat i))"

text \<open>
  \<open>self.request\<close>: the task id, which every retry of one job keeps, and the number of
  retries made before this attempt.
\<close>

record request =
  request_id :: string
  retries :: nat

datatype task_return =
    TaskSuccess string string string int crew_results
  | TaskValidationError string string

text \<open>
  How one attempt ends: it returns a dictionary, or it raises Celery's \<open>Retry\<close> after
  scheduling the next attempt (countdown in seconds, the exception given, the retry count
  of the next attempt), or it raises an exception and the task fails for good.
\<close>

datatype task_outcome =
    Returned task_return
  | RetryScheduled nat py_exn nat
  | Raised py_exn

text \<open>
  \<open>raise self.retry(countdown=c, exc=e)\<close> on a worker, as the Celery library defines
  \<open>Task.retry\<close>: with the next retry count above \<open>max_retries\<close> it raises \<open>e\<close>,
  otherwise it schedules the next attempt and raises \<open>Retry\<close>.
\<close>

definition task_retry :: "nat \<Rightarrow> request \<Rightarrow> nat \<Rightarrow> py_exn \<Rightarrow> task_outcome" where
  "task_retry max_retries req countdown exc =
     (if retries req + 1 > max_retries then Raised exc
      else RetryScheduled countdown exc (retries req + 1))"

text \<open>The decorator of \<open>analyze_financial_document_task\<close>: \<open>max_retries=3\<close>.\<close>

definition analysis_max_retries :: nat where
  "analysis_max_retries = 3"

text \<open>\<open>if os.path.exists(p): try: os.remove(p) except Exception: (log)\<close>\<close>

definition remove_if_exists :: "filesystem \<Rightarrow> string \<Rightarrow> filesystem" where
  "remove_if_exists fs p =
     (if os_path_exists fs p
      then (case os_remove fs p of Inl e \<Rightarrow> fs | Inr fs' \<Rightarrow> fs')
      else fs)"

text \<open>
  Lines 95 to 122 of the task, run when \<open>analysis_id\<close> is true: the results are stored,
  the job is set to completed, and the audit entry is written. Only the first of the three
  writes can raise, before anything is written.
\<close>

definition mark_completed ::
  "database \<Rightarrow> timestamp \<Rightarrow> int \<Rightarrow> crew_results \<Rightarrow> int \<Rightarrow> int option
   \<Rightarrow> py_exn + database" where
  "mark_completed db now i results pt uid =
     (case create_analysis_result db now i
             (verification results) (analysis results)
             (investment results) (risk results) (Some pt) of
        Inl e \<Rightarrow> Inl e
      | Inr (d1, r) \<Rightarrow>
          let d2 = fst (update_analysis_status d1 now i ''completed'' None None)
          in Inr (log_audit d2 now ''analyze_document'' ''analysis'' ''success'' uid (Some i)
                    (Some (''Analysis completed in '' @ str_int pt @ ''s''))))"

text \<open>
  The \<open>try\<close> block of the task, on a new session. \<open>t0\<close> is the clock at entry, \<open>t1\<close> the
  clock once the pipeline has returned or raised. \<open>self.update_state\<close> writes to the result
  backend only and is left out. The block returns the files, the session, the state of the
  outside world, and the task's dictionary or the exception raised.
\<close>

definition analyze_financial_document_task_try ::
  "'w capabilities \<Rightarrow> request \<Rightarrow> timestamp \<Rightarrow> timestamp \<Rightarrow> string \<Rightarrow> string \<Rightarrow> string \<Rightarrow> string
   \<Rightarrow> int option \<Rightarrow> int option \<Rightarrow> filesystem \<Rightarrow> database \<Rightarrow> 'w
   \<Rightarrow> filesystem \<times> session \<times> 'w \<times> (py_exn + task_return)" where
  "analyze_financial_document_task_try cap req t0 t1 file_path q fid fname aid uid fs db w =
     (case (case aid of
              None \<Rightarrow> (new_session db, None)
            | Some i \<Rightarrow>
                if i = 0 then (new_session db, None)
                else in_session (new_session db)
                       (\<lambda>d. Inr (fst (update_analysis_status d t0 i ''processing''
                                        (Some (request_id req)) None)))) of
        (s1, Some e) \<Rightarrow> (fs, s1, w, Inl e)
      | (s1, None) \<Rightarrow>
        case validate_pdf_file fs file_path of
          Inl e \<Rightarrow> (fs, s1, w, Inl e)
        | Inr valid \<Rightarrow>
          if \<not> valid then (fs, s1, w, Inl (ValueError ''Invalid PDF file''))
          else case run_financial_analysis_crew cap fs q file_path w of
            (Inl e, w1) \<Rightarrow> (fs, s1, w1, Inl e)
          | (Inr results, w1) \<Rightarrow>
              let pt = py_int (t1 - t0)
              in case (case aid of
                         None \<Rightarrow> (s1, None)
                       | Some i \<Rightarrow>
                           if i = 0 then (s1, None)
                           else in_session s1 (\<lambda>d. mark_completed d t1 i results pt uid)) of
                   (s2, Some e) \<Rightarrow> (fs, s2, w1, Inl e)
                 | (s2, None) \<Rightarrow>
                     (remove_if_exists fs file_path, s2, w1,
                      Inr (TaskSuccess fid fname (request_id req) pt results)))"

text \<open>
  The block \<open>if analysis_id and db: update_analysis_status(...); log_audit(...)\<close> of the
  handlers, on the session of the \<open>try\<close> block.
\<close>

definition record_failure ::
  "session \<Rightarrow> timestamp \<Rightarrow> int option \<Rightarrow> int option \<Rightarrow> string \<Rightarrow> string
   \<Rightarrow> session \<times> py_exn option" where
  "record_failure s now aid uid message det =
     (case aid of
        None \<Rightarrow> (s, None)
      | Some i \<Rightarrow>
          if i = 0 then (s, None)
          else in_session s
                 (\<lambda>d. Inr (log_audit
                             (fst (update_analysis_status d now i ''failed'' None (Some message)))
                             now ''analyze_document'' ''analysis'' ''failure'' uid (Some i)
                             (Some det))))"

text \<open>
  One attempt of the task: the \<open>try\<close> block and its three handlers, in their order. An
  exception raised inside a handler leaves the task as it is: no other handler catches it.
\<close>

definition analyze_financial_document_task ::
  "'w capabilities \<Rightarrow> request \<Rightarrow> timestamp \<Rightarrow> timestamp \<Rightarrow> string \<Rightarrow> string \<Rightarrow> string \<Rightarrow> string
   \<Rightarrow> int option \<Rightarrow> int option \<Rightarrow> filesystem \<Rightarrow> database \<Rightarrow> 'w
   \<Rightarrow> filesystem \<times> database \<times> 'w \<times> task_outcome" where
  "analyze_financial_document_task cap req t0 t1 file_path q fid fname aid uid fs db w =
     (case analyze_financial_document_task_try cap req t0 t1 file_path q fid fname aid uid
             fs db w of
        (fs1, s1, w1, Inr ret) \<Rightarrow> (fs1, tables s1, w1, Returned ret)
      | (fs1, s1, w1, Inl e) \<Rightarrow>
          (case e of
             SoftTimeLimitExceeded m \<Rightarrow>
               (case record_failure s1 t1 aid uid ''Task timeout'' ''Task timeout'' of
                  (s2, Some e') \<Rightarrow> (fs1, tables s2, w1, Raised e')
                | (s2, None) \<Rightarrow>
                    (fs1, tables s2, w1,
                     task_retry analysis_max_retries req 60
                       (OtherException ''Task timeout, retrying...'')))
           | ValueError m \<Rightarrow>
               (case record_failure s1 t1 aid uid m (''Validation error: '' @ m) of
                  (s2, Some e') \<Rightarrow> (fs1, tables s2, w1, Raised e')
                | (s2, None) \<Rightarrow> (fs1, tables s2, w1, Returned (TaskValidationError m fid)))
           | _ \<Rightarrow>
               (case record_failure s1 t1 aid uid (str_exn e) (''Error: '' @ str_exn e) of
                  (s2, Some e') \<Rightarrow> (fs1, tables s2, w1, Raised e')
                | (s2, None) \<Rightarrow>
                    (fs1, tables s2, w1,
                     task_retry analysis_max_retries req (2 ^ retries req) e))))"

section \<open>\<open>tasks.py\<close>: the periodic cleanup\<close>

definition older_than :: real where
  "older_than = 86400"

text \<open>
  The loop of \<open>cleanup_old_files\<close> over the paths that
  \<open>data_dir.glob('financial_document_*.pdf')\<close> yields, with its inner \<open>try\<close>: an
  exception of \<open>os.path.getmtime\<close> or of \<open>os.remove\<close> adds one to \<open>errors\<close> and the loop
  goes on.
\<close>

fun cleanup_loop ::
  "timestamp \<Rightarrow> string list \<Rightarrow> filesystem \<Rightarrow> nat \<Rightarrow> nat \<Rightarrow> filesystem \<times> nat \<times> nat" where
  "cleanup_loop current_time [] fs count errors = (fs, count, errors)"
| "cleanup_loop current_time (file_path # rest) fs count errors =
     (case os_path_getmtime fs file_path of
        Inl e \<Rightarrow> cleanup_loop current_time rest fs count (errors + 1)
      | Inr m \<Rightarrow>
          if current_time - m > older_than
          then (case os_remove fs file_path of
                  Inl e \<Rightarrow> cleanup_loop current_time rest fs count (errors + 1)
                | Inr fs' \<Rightarrow> cleanup_loop current_time rest fs' (count + 1) errors)
          else cleanup_loop current_time rest fs count errors)"

text \<open>
  The two dictionaries \<open>cleanup_old_files\<close> returns: \<open>{'cleaned_count', 'errors'}\<close>, and
  \<open>{'status': 'error', 'message'}\<close> from the outer handler.
\<close>

datatype cleanup_result = Cleaned nat nat | CleanupFailed string

text \<open>\<open>listing\<close> is what the glob yields, or the exception it raises.\<close>

definition cleanup_old_files ::
  "py_exn + string list \<Rightarrow> timestamp \<Rightarrow> filesystem \<Rightarrow> filesystem \<times> cleanup_result" where
  "cleanup_old_files listing current_time fs =
     (case listing of
        Inl e \<Rightarrow> (fs, CleanupFailed (str_exn e))
      | Inr paths \<Rightarrow>
          (case cleanup_loop current_time paths fs 0 0 of
             (fs', count, errors) \<Rightarrow> (fs', Cleaned count errors)))"

section \<open>\<open>main.py\<close>: the \<open>/analyze\<close> endpoint\<close>

text \<open>
  An \<open>UploadFile\<close>, the exception FastAPI turns into an error response, the dictionary
  the endpoint returns, and the JSON document it writes under \<open>outputs/\<close>.
\<close>

record upload_file =
  upload_filename :: string
  upload_content :: string

datatype http_exception = HTTPException nat string

record analyze_response =
  response_file_id :: string
  response_filename :: string
  response_query :: string
  response_results :: crew_results
  response_output_file :: string

record output_document =
  output_file_id :: string
  output_filename :: string
  output_query :: string
  output_results :: crew_results

type_synonym output_files = "string \<Rightarrow> output_document option"

datatype raised = Http http_exception | Py py_exn

definition default_query :: string where
  "default_query = ''Provide comprehensive financial analysis of the submitted document''"

text \<open>
  Lines 314 to 352 of the endpoint, on a new session: the job row, flushed, then the result
  row, committed. The flush raises when a row of \<open>analyses\<close> already has the file id. The
  handler of the block logs the exception and rolls the session back, so the tables are
  then as they were.
\<close>

definition save_analysis ::
  "database \<Rightarrow> timestamp \<Rightarrow> string \<Rightarrow> string \<Rightarrow> string \<Rightarrow> crew_results \<Rightarrow> py_exn + database" where
  "save_analysis db now fid fname q results =
     (if find (\<lambda>a. file_id a = fid) (analyses db) \<noteq> None
      then Inl (IntegrityError ''analyses.file_id: duplicate value'')
      else
        let a = \<lparr>ident = next_ident (map ident (analyses db)), user_id = None,
                 file_id = fid, filename = fname, query = q,
                 status = ''completed'', task_id = None, error_message = None,
                 created_at = now, updated_at = now, completed_at = Some now\<rparr>;
            r = \<lparr>result_ident = next_ident (map result_ident (analysis_results db)),
                 analysis_id = ident a, verification_text = verification results,
                 financial_analysis = analysis results,
                 investment_recommendations = investment results,
                 risk_assessment = risk results,
                 processing_time = Some 0, result_created_at = now\<rparr>
        in Inr (db\<lparr>analyses := analyses db @ [a],
                   analysis_results := analysis_results db @ [r]\<rparr>))"

definition save_analysis_or_roll_back ::
  "database \<Rightarrow> timestamp \<Rightarrow> string \<Rightarrow> string \<Rightarrow> string \<Rightarrow> crew_results \<Rightarrow> database" where
  "save_analysis_or_roll_back db now fid fname q results =
     (case in_session (new_session db) (\<lambda>d. save_analysis d now fid fname q results) of
        (s, Some e) \<Rightarrow> tables (s\<lparr>rolled_back := False\<rparr>)
      | (s, None) \<Rightarrow> tables s)"

text \<open>
  The \<open>try\<close> block of the endpoint. \<open>fid\<close> is the \<open>uuid4\<close> drawn for the request, \<open>now\<close>
  the clock. An \<open>UploadFile\<close> object is always true, so \<open>if not file\<close> never raises.
\<close>

definition analyze_endpoint_try ::
  "'w capabilities \<Rightarrow> timestamp \<Rightarrow> string \<Rightarrow> upload_file \<Rightarrow> string
   \<Rightarrow> filesystem \<Rightarrow> output_files \<Rightarrow> database \<Rightarrow> 'w
   \<Rightarrow> filesystem \<times> output_files \<times> database \<times> 'w \<times> (raised + analyze_response)" where
  "analyze_endpoint_try cap now fid file query0 fs outs db w =
     (let file_path = ''data/financial_document_'' @ fid @ ''.pdf'';
          output_path = ''outputs/analysis_'' @ fid @ ''.json'';
          q = strip (if query0 = [] \<or> strip query0 = [] then default_query else query0)
      in if \<not> endswith (lower (upload_filename file)) ''.pdf''
         then (fs, outs, db, w, Inl (Http (HTTPException 400 ''Only PDF files are supported'')))
         else if length (upload_content file) > MAX_FILE_SIZE
         then (fs, outs, db, w, Inl (Http (HTTPException 413
                 ''File size exceeds maximum allowed size of 10.0MB'')))
         else if \<not> startswith (upload_content file) ''%PDF''
         then (fs, outs, db, w,
               Inl (Http (HTTPException 400 ''Uploaded file is not a valid PDF'')))
         else
           let fs1 = fs(file_path \<mapsto> \<lparr>content = upload_content file, mtime = now,
                                       readable = True, removable = True\<rparr>)
           in case run_financial_analysis_crew cap fs1 q file_path w of
                (Inl e, w1) \<Rightarrow> (fs1, outs, db, w1, Inl (Py e))
              | (Inr results, w1) \<Rightarrow>
                  let outs1 = outs(output_path \<mapsto>
                        \<lparr>output_file_id = fid, output_filename = upload_filename file,
                         output_query = q, output_results = results\<rparr>);
                      db1 = save_analysis_or_roll_back db now fid (upload_filename file) q
                              results
                  in (fs1, outs1, db1, w1,
                      Inr \<lparr>response_file_id = fid, response_filename = upload_filename file,
                           response_query = q, response_results = results,
                           response_output_file = output_path\<rparr>))"

text \<open>The endpoint: the handlers in their order, then the \<open>finally\<close> that removes the upload.\<close>

definition analyze_financial_document_endpoint ::
  "'w capabilities \<Rightarrow> timestamp \<Rightarrow> string \<Rightarrow> upload_file \<Rightarrow> string
   \<Rightarrow> filesystem \<Rightarrow> output_files \<Rightarrow> database \<Rightarrow> 'w
   \<Rightarrow> filesystem \<times> output_files \<times> database \<times> 'w \<times> (http_exception + analyze_response)" where
  "analyze_financial_document_endpoint cap now fid file query0 fs outs db w =
     (case analyze_endpoint_try cap now fid file query0 fs outs db w of
        (fs1, outs1, db1, w1, r) \<Rightarrow>
          (remove_if_exists fs1 (''data/financial_document_'' @ fid @ ''.pdf''), outs1, db1, w1,
           (case r of
              Inr response \<Rightarrow> Inr response
            | Inl (Http h) \<Rightarrow> Inl h
            | Inl (Py (FileNotFoundError m)) \<Rightarrow>
                Inl (HTTPException 404 (''File processing error: '' @ m))
            | Inl (Py (ValueError m)) \<Rightarrow> Inl (HTTPException 400 (''Validation error: '' @ m))
            | Inl (Py e) \<Rightarrow>
                Inl (HTTPException 500 (''Error processing financial document: '' @ str_exn e)))))"

section \<open>A collaborator that records its calls\<close>

text \<open>
  The collaborator used to observe the pipeline: its world is the list of the calls made to
  the stage crews so far, and each call appends the stage and the input it was given. The
  reader and the answers of the crews are parameters.
\<close>
definition recording ::
  "(filesystem \<Rightarrow> string \<Rightarrow> py_exn + string list) \<Rightarrow> (stage \<Rightarrow> crew_input \<Rightarrow> py_exn + string)
   \<Rightarrow> (stage \<times> crew_input) list capabilities" where
  "recording reader answer =
     \<lparr>load_data = reader, kickoff = (\<lambda>s ci calls. (answer s ci, calls @ [(s, ci)]))\<rparr>"

section \<open>Concrete inputs\<close>

text \<open>
  The inputs at which the properties below are evaluated: files, job records, requests,
  an upload, and collaborators that succeed, find no text, cannot read the file, time out,
  or fail.
\<close>
definition pdf_file :: file_node where
  "pdf_file = \<lparr>content = ''%PDF-1.4 balance sheet'', mtime = 0, readable = True, removable = True\<rparr>"

definition fs_report :: filesystem where
  "fs_report = (\<lambda>p. None)(''data/Report.PDF'' \<mapsto> pdf_file)"

definition job_done :: analysis_row where
  "job_done = \<lparr>ident = 1, user_id = None, file_id = ''f1'', filename = ''report.pdf'',
     query = ''summarize risk'', status = ''completed'', task_id = Some ''t1'',
     error_message = None, created_at = 0, updated_at = 5, completed_at = Some 5\<rparr>"

definition result_done :: analysis_result_row where
  "result_done = \<lparr>result_ident = 1, analysis_id = 1, verification_text = ''v'',
     financial_analysis = ''a'', investment_recommendations = ''i'', risk_assessment = ''r'',
     processing_time = Some 4, result_created_at = 5\<rparr>"

definition db_done :: database where
  "db_done = \<lparr>analyses = [job_done], analysis_results = [result_done], audit_logs = []\<rparr>"

definition results_again :: crew_results where
  "results_again = \<lparr>verification = ''v'', analysis = ''a'', investment = ''i'', risk = ''r''\<rparr>"

definition stage_name :: "stage \<Rightarrow> string" where
  "stage_name s = (case s of Verification \<Rightarrow> ''verified'' | FinancialAnalysis \<Rightarrow> ''analysed''
     | InvestmentAnalysis \<Rightarrow> ''advised'' | RiskAssessment \<Rightarrow> ''assessed'')"

definition reader_ok :: "filesystem \<Rightarrow> string \<Rightarrow> py_exn + string list" where
  "reader_ok fs p = Inr [''Revenue  grew 10%'', ''Costs fell'']"

definition answer_ok :: "stage \<Rightarrow> crew_input \<Rightarrow> py_exn + string" where
  "answer_ok s ci = Inr (stage_name s)"

definition answer_investment_down :: "stage \<Rightarrow> crew_input \<Rightarrow> py_exn + string" where
  "answer_investment_down s ci =
     (if s = InvestmentAnalysis \<or> s = RiskAssessment
      then Inl (OtherException (stage_name s @ '' down'')) else Inr (stage_name s))"

definition cap_ok :: "(stage \<times> crew_input) list capabilities" where
  "cap_ok = recording reader_ok answer_ok"


definition job_queued :: analysis_row where
  "job_queued = \<lparr>ident = 1, user_id = None, file_id = ''f1'', filename = ''Report.PDF'',
     query = ''summarize risk'', status = ''queued'', task_id = None,
     error_message = None, created_at = 0, updated_at = 0, completed_at = None\<rparr>"

definition db_queued :: database where
  "db_queued = \<lparr>analyses = [job_queued], analysis_results = [], audit_logs = []\<rparr>"

definition cap_empty :: "(stage \<times> crew_input) list capabilities" where
  "cap_empty = recording (\<lambda>fs p. Inr ['' '', []]) answer_ok"


definition cap_timeout :: "(stage \<times> crew_input) list capabilities" where
  "cap_timeout = recording reader_ok
     (\<lambda>s ci. Inl (SoftTimeLimitExceeded ''SoftTimeLimitExceeded()''))"



definition req0 :: request where
  "req0 = \<lparr>request_id = ''t1'', retries = 0\<rparr>"


definition req3 :: request where
  "req3 = \<lparr>request_id = ''t1'', retries = 3\<rparr>"

definition job_processing :: analysis_row where
  "job_processing = job_queued\<lparr>status := ''processing'', task_id := Some ''t1'', updated_at := 10\<rparr>"

definition db_processing :: database where
  "db_processing = \<lparr>analyses = [job_processing], analysis_results = [], audit_logs = []\<rparr>"

definition ci_report :: crew_input where
  "ci_report = \<lparr>input_query = ''summarize risk'',
                 document_content = ''Revenue grew 10%'' @ newline @ ''Costs fell''\<rparr>"

definition old_file :: file_node where
  "old_file = \<lparr>content = ''%PDF-1.4 old'', mtime = 10000, readable = True, removable = True\<rparr>"

definition young_file :: file_node where
  "young_file = \<lparr>content = ''%PDF-1.4 new'', mtime = 96400, readable = True, removable = True\<rparr>"

definition locked_file :: file_node where
  "locked_file = \<lparr>content = ''%PDF-1.4 locked'', mtime = 10000, readable = True, removable = False\<rparr>"

definition fs_data :: filesystem where
  "fs_data = (\<lambda>p. None)(''data/financial_document_a.pdf'' \<mapsto> old_file,
                          ''data/financial_document_b.pdf'' \<mapsto> young_file,
                          ''data/financial_document_c.pdf'' \<mapsto> locked_file)"

definition upload_ok :: upload_file where
  "upload_ok = \<lparr>upload_filename = ''Report.PDF'', upload_content = ''%PDF-1.4 balance sheet''\<rparr>"

definition fs_none :: filesystem where
  "fs_none = (\<lambda>p. None)"

definition outs_none :: output_files where
  "outs_none = (\<lambda>p. None)"

definition fs_uploaded :: filesystem where
  "fs_uploaded = fs_none(''data/financial_document_abc.pdf'' \<mapsto>
      \<lparr>content = upload_content upload_ok, mtime = 10, readable = True, removable = True\<rparr>)"

definition db_empty :: database where
  "db_empty = \<lparr>analyses = [], analysis_results = [], audit_logs = []\<rparr>"

definition db_taken :: database where
  "db_taken = \<lparr>analyses = [job_done\<lparr>file_id := ''abc''\<rparr>], analysis_results = [result_done],
     audit_logs = []\<rparr>"

section \<open>Properties\<close>
lemma MAX_FILE_SIZE_value: "MAX_FILE_SIZE = 10485760"
  by (simp add: MAX_FILE_SIZE_def)

subsection \<open>The job record\<close>
lemma find_store_row:
  "find (\<lambda>a. ident a = i) xs = Some a0 \<Longrightarrow> ident a = i
   \<Longrightarrow> find (\<lambda>a. ident a = i) (store_row a xs) = Some a"
  by (induction xs) (auto split: if_splits)

lemma find_ident: "find (\<lambda>a. ident a = i) xs = Some a \<Longrightarrow> ident a = i"
  by (induction xs) (auto split: if_splits)

lemma update_analysis_status_found:
  assumes "get_analysis db i = Some a"
  shows "\<exists>a'. update_analysis_status db now i st tid err
               = (db\<lparr>analyses := store_row a' (analyses db)\<rparr>, Some a')
     \<and> get_analysis (fst (update_analysis_status db now i st tid err)) i = Some a'
     \<and> ident a' = i \<and> status a' = st \<and> updated_at a' = now
     \<and> error_message a' = (if truthy_str err then err else error_message a)
     \<and> task_id a' = (if truthy_str tid then tid else task_id a)
     \<and> completed_at a' = (if st = ''completed'' then Some now else completed_at a)"
  using assms find_ident[of i "analyses db" a]
  by (auto simp: update_analysis_status_def get_analysis_def Let_def find_store_row)

lemma update_analysis_status_missing:
  "get_analysis db i = None \<Longrightarrow> update_analysis_status db now i st tid err = (db, None)"
  by (simp add: update_analysis_status_def get_analysis_def)

lemma log_audit_analyses [simp]: "analyses (log_audit db now a b c d e f) = analyses db"
  and log_audit_results [simp]:
    "analysis_results (log_audit db now a b c d e f) = analysis_results db"
  by (simp_all add: log_audit_def)

lemma get_analysis_log_audit [simp]:
  "get_analysis (log_audit db now a b c d e f) i = get_analysis db i"
  by (simp add: get_analysis_def)

lemma create_analysis_result_found:
  "get_analysis db i = Some a \<Longrightarrow>
   \<exists>r. create_analysis_result db now i v fa ir ra pt
        = Inr (db\<lparr>analysis_results := analysis_results db @ [r]\<rparr>, r)
     \<and> analysis_id r = i \<and> verification_text r = v \<and> financial_analysis r = fa
     \<and> investment_recommendations r = ir \<and> risk_assessment r = ra"
  by (simp add: create_analysis_result_def get_analysis_def Let_def)

lemma create_analysis_result_missing:
  "get_analysis db i = None \<Longrightarrow> \<exists>m. create_analysis_result db now i v fa ir ra pt
        = Inl (IntegrityError m)"
  by (simp add: create_analysis_result_def get_analysis_def)

lemma get_analysis_results_update [simp]:
  "get_analysis (db\<lparr>analysis_results := rs\<rparr>) j = get_analysis db j"
  by (simp add: get_analysis_def)

text \<open>
  C2, as stated, fails: \<open>update_analysis_status\<close> has no check of the current status. On a
  completed job a request for \<open>queued\<close> is applied and the updated row is returned.
\<close>

theorem status_moves_backward_counterexample:
  "map status (analyses db_done) = [''completed'']
   \<and> map status (analyses (fst (update_analysis_status db_done 9 1 ''queued'' None None)))
       = [''queued'']
   \<and> map_option status (snd (update_analysis_status db_done 9 1 ''queued'' None None))
       = Some ''queued''"
  by (simp add: update_analysis_status_def db_done_def job_done_def truthy_str_def Let_def)

text \<open>
  C2, amended. \<open>update_analysis_status\<close> sets the status it is given, whatever the status
  of the job was: for a job that exists it returns the updated row, which is the row a
  status query then reads, with the requested status; for a job that does not exist it
  changes nothing and returns \<open>None\<close>. It raises in neither case.
\<close>

theorem update_analysis_status_sets_any_status:
  "case get_analysis db i of
     None \<Rightarrow> update_analysis_status db now i st tid err = (db, None)
   | Some a \<Rightarrow>
       (\<exists>a'. snd (update_analysis_status db now i st tid err) = Some a'
            \<and> get_analysis (fst (update_analysis_status db now i st tid err)) i = Some a'
            \<and> status a' = st)"
proof (cases "get_analysis db i")
  case None
  then show ?thesis by (simp add: update_analysis_status_missing)
next
  case (Some a)
  from update_analysis_status_found[OF Some, of now st tid err]
  obtain a' where "update_analysis_status db now i st tid err
        = (db\<lparr>analyses := store_row a' (analyses db)\<rparr>, Some a')"
    and "get_analysis (fst (update_analysis_status db now i st tid err)) i = Some a'"
    and "status a' = st" by blast
  with Some show ?thesis by simp
qed

theorem update_analysis_status_sets_any_status_witness:
  "get_analysis db_done 1 = Some job_done
   \<and> (\<exists>a'. snd (update_analysis_status db_done 9 1 ''failed'' None (Some ''boom'')) = Some a'
        \<and> get_analysis (fst (update_analysis_status db_done 9 1 ''failed'' None (Some ''boom''))) 1
            = Some a'
        \<and> status a' = ''failed'')"
  using update_analysis_status_sets_any_status
    [where db = db_done and i = 1 and now = 9 and st = "''failed''" and tid = None
       and err = "Some ''boom''"]
  by (simp add: get_analysis_def db_done_def job_done_def)

text \<open>
  C3, as stated, fails: completing the completed job of \<open>db_done\<close> again, at time 9,
  succeeds, moves \<open>completed_at\<close> from 5 to 9 and leaves two result rows where there was
  one.
\<close>

theorem mark_completed_not_idempotent_counterexample:
  "map status (analyses db_done) = [''completed'']
   \<and> map completed_at (analyses db_done) = [Some 5]
   \<and> map_sum id (\<lambda>d. map completed_at (analyses d))
        (mark_completed db_done 9 1 results_again 4 None) = Inr [Some 9]
   \<and> length (analysis_results db_done) = 1
   \<and> map_sum id (\<lambda>d. length (analysis_results d))
        (mark_completed db_done 9 1 results_again 4 None) = Inr 2"
  by (simp add: mark_completed_def update_analysis_status_def create_analysis_result_def
      log_audit_def db_done_def job_done_def truthy_str_def Let_def)

text \<open>
  C3, amended. Completing a job that is already completed raises no error and leaves it
  completed; \<open>completed_at\<close> becomes the time of this call, and one more result row with
  the four outputs of this call is appended after the rows already stored, which stay as
  they were.
\<close>

theorem mark_completed_again:
  assumes "get_analysis db i = Some a" and "status a = ''completed''"
  shows "\<exists>db' a' r. mark_completed db now i results pt uid = Inr db'
           \<and> get_analysis db' i = Some a'
           \<and> status a' = ''completed''
           \<and> completed_at a' = Some now
           \<and> analysis_results db' = analysis_results db @ [r]
           \<and> analysis_id r = i
           \<and> verification_text r = verification results
           \<and> financial_analysis r = analysis results
           \<and> investment_recommendations r = investment results
           \<and> risk_assessment r = risk results"
proof -
  from create_analysis_result_found[OF assms(1), of now "verification results"
      "analysis results" "investment results" "risk results" "Some pt"]
  obtain r where c: "create_analysis_result db now i (verification results) (analysis results)
        (investment results) (risk results) (Some pt)
        = Inr (db\<lparr>analysis_results := analysis_results db @ [r]\<rparr>, r)"
    and r: "analysis_id r = i" "verification_text r = verification results"
      "financial_analysis r = analysis results"
      "investment_recommendations r = investment results"
      "risk_assessment r = risk results"
    by blast
  let ?d1 = "db\<lparr>analysis_results := analysis_results db @ [r]\<rparr>"
  have g: "get_analysis ?d1 i = Some a" using assms(1) by simp
  from update_analysis_status_found[OF g, of now "''completed''" None None]
  obtain a' where u: "update_analysis_status ?d1 now i ''completed'' None None
        = (?d1\<lparr>analyses := store_row a' (analyses ?d1)\<rparr>, Some a')"
    and g': "get_analysis (fst (update_analysis_status ?d1 now i ''completed'' None None)) i
        = Some a'"
    and s: "status a' = ''completed''" and ca: "completed_at a' = Some now"
    by auto
  have rs: "analysis_results (fst (update_analysis_status ?d1 now i ''completed'' None None))
      = analysis_results db @ [r]"
    by (simp add: u)
  show ?thesis
    using g' s ca rs r by (simp add: mark_completed_def c Let_def)
qed

theorem mark_completed_again_witness:
  "get_analysis db_done 1 = Some job_done \<and> status job_done = ''completed''
   \<and> (\<exists>db' a' r. mark_completed db_done 9 1 results_again 4 None = Inr db'
           \<and> get_analysis db' 1 = Some a'
           \<and> status a' = ''completed''
           \<and> completed_at a' = Some 9
           \<and> analysis_results db' = analysis_results db_done @ [r]
           \<and> analysis_id r = 1
           \<and> verification_text r = verification results_again
           \<and> financial_analysis r = analysis results_again
           \<and> investment_recommendations r = investment results_again
           \<and> risk_assessment r = risk results_again)"
proof -
  have h1: "get_analysis db_done 1 = Some job_done"
    by (simp add: get_analysis_def db_done_def job_done_def)
  have h2: "status job_done = ''completed''" by (simp add: job_done_def)
  show ?thesis
    using h1 h2 mark_completed_again
      [OF h1 h2, where now = 9 and results = results_again and pt = 4 and uid = None]
    by simp
qed

subsection \<open>The pipeline\<close>




lemma extract_recording:
  "extract_pdf_text (recording reader answer) fs p
   = (case reader fs p of
        Inl e \<Rightarrow> Inl e
      | Inr documents \<Rightarrow>
          Inr (strip (concat (map (\<lambda>doc. join '' '' (split doc) @ newline) documents))))"
  by (simp add: extract_pdf_text_def recording_def)


lemma validate_report: "validate_pdf_file fs_report ''data/Report.PDF'' = Inr True"
  by (simp add: validate_pdf_file_def validate_pdf_file_try_def fs_report_def pdf_file_def
      os_path_exists_def os_path_getsize_def open_read_def endswith_def lower_def
      lower_char_def MAX_FILE_SIZE_def)

lemma extract_reader_ok:
  "extract_pdf_text (recording reader_ok answer) fs p
   = Inr (''Revenue grew 10%'' @ newline @ ''Costs fell'')"
  by (simp add: extract_recording reader_ok_def split_def strip_def is_space_def newline_def)

lemma kickoff_recording [simp]:
  "kickoff (recording reader answer) s ci calls = (answer s ci, calls @ [(s, ci)])"
  by (simp add: recording_def)

text \<open>The run of the four stages, once the file is valid and its text is not empty.\<close>

lemma run_stages:
  assumes "validate_pdf_file fs file_path = Inr True"
    and "extract_pdf_text cap fs file_path = Inr text" and "text \<noteq> []"
  shows "run_financial_analysis_crew cap fs q file_path w =
     (let ci = \<lparr>input_query = q, document_content = truncate_document text\<rparr>
      in case kickoff cap Verification ci w of
           (Inl e, w1) \<Rightarrow> (Inl e, w1)
         | (Inr v, w1) \<Rightarrow>
           case kickoff cap FinancialAnalysis ci w1 of
             (Inl e, w2) \<Rightarrow> (Inl e, w2)
           | (Inr a, w2) \<Rightarrow>
             case kickoff cap InvestmentAnalysis ci w2 of
               (Inl e, w3) \<Rightarrow> (Inl e, w3)
             | (Inr i, w3) \<Rightarrow>
               case kickoff cap RiskAssessment ci w3 of
                 (Inl e, w4) \<Rightarrow> (Inl e, w4)
               | (Inr r, w4) \<Rightarrow>
                   (Inr \<lparr>verification = v, analysis = a, investment = i, risk = r\<rparr>, w4))"
  using assms by (simp add: run_financial_analysis_crew_def)


lemma run_recorded_calls:
  assumes "validate_pdf_file fs file_path = Inr True"
    and "extract_pdf_text (recording reader answer) fs file_path = Inr text" and "text \<noteq> []"
    and "ci = \<lparr>input_query = q, document_content = truncate_document text\<rparr>"
    and "n = length (takeWhile (\<lambda>s. \<not> isl (answer s ci))
                 [Verification, FinancialAnalysis, InvestmentAnalysis, RiskAssessment])"
  shows "run_financial_analysis_crew (recording reader answer) fs q file_path calls0 =
     (if n = 4
      then Inr \<lparr>verification = projr (answer Verification ci),
                analysis = projr (answer FinancialAnalysis ci),
                investment = projr (answer InvestmentAnalysis ci),
                risk = projr (answer RiskAssessment ci)\<rparr>
      else Inl (projl (answer ([Verification, FinancialAnalysis, InvestmentAnalysis,
                                RiskAssessment] ! n) ci)),
      calls0 @ map (\<lambda>s. (s, ci))
                 (take (Suc n) [Verification, FinancialAnalysis, InvestmentAnalysis,
                                RiskAssessment]))"
  unfolding run_stages[OF assms(1,2,3)] assms(5) Let_def assms(4)[symmetric]
  by (cases "answer Verification ci"; cases "answer FinancialAnalysis ci";
      cases "answer InvestmentAnalysis ci"; cases "answer RiskAssessment ci")
     simp_all






text \<open>
  C5. With a collaborator that records each call made to a stage crew, a run on a valid file
  whose text is not empty calls the crews of verification, financial analysis, investment
  analysis and risk assessment, in that order and once each, up to and including the first
  one that raises. It calls all four exactly when none raises, and then returns their four
  answers; otherwise it raises what the failing crew raised. Every call passes the same
  input, made of the query and the truncated extracted text only, so no stage is given the
  output of another.
\<close>

theorem stages_in_fixed_order_with_shared_context:
  assumes "validate_pdf_file fs file_path = Inr True"
    and "extract_pdf_text (recording reader answer) fs file_path = Inr text" and "text \<noteq> []"
    and "ci = \<lparr>input_query = q, document_content = truncate_document text\<rparr>"
    and "n = length (takeWhile (\<lambda>s. \<not> isl (answer s ci))
                 [Verification, FinancialAnalysis, InvestmentAnalysis, RiskAssessment])"
  shows "run_financial_analysis_crew (recording reader answer) fs q file_path calls0 =
     (if n = 4
      then Inr \<lparr>verification = projr (answer Verification ci),
                analysis = projr (answer FinancialAnalysis ci),
                investment = projr (answer InvestmentAnalysis ci),
                risk = projr (answer RiskAssessment ci)\<rparr>
      else Inl (projl (answer ([Verification, FinancialAnalysis, InvestmentAnalysis,
                                RiskAssessment] ! n) ci)),
      calls0 @ map (\<lambda>s. (s, ci))
                 (take (Suc n) [Verification, FinancialAnalysis, InvestmentAnalysis,
                                RiskAssessment]))"
  by (rule run_recorded_calls[OF assms])

text \<open>
  A run in which every crew answers, and a run in which the investment crew raises: three
  calls are recorded and the risk crew is not called.
\<close>

theorem stages_in_fixed_order_with_shared_context_witness:
  "validate_pdf_file fs_report ''data/Report.PDF'' = Inr True
   \<and> extract_pdf_text (recording reader_ok answer_ok) fs_report ''data/Report.PDF''
       = Inr (''Revenue grew 10%'' @ newline @ ''Costs fell'')
   \<and> run_financial_analysis_crew (recording reader_ok answer_ok) fs_report ''summarize risk''
        ''data/Report.PDF'' []
     = (Inr \<lparr>verification = ''verified'', analysis = ''analysed'', investment = ''advised'',
            risk = ''assessed''\<rparr>,
        map (\<lambda>s. (s, \<lparr>input_query = ''summarize risk'',
               document_content = ''Revenue grew 10%'' @ newline @ ''Costs fell''\<rparr>))
          [Verification, FinancialAnalysis, InvestmentAnalysis, RiskAssessment])
   \<and> run_financial_analysis_crew (recording reader_ok answer_investment_down) fs_report
        ''summarize risk'' ''data/Report.PDF'' []
     = (Inl (OtherException ''advised down''),
        map (\<lambda>s. (s, \<lparr>input_query = ''summarize risk'',
               document_content = ''Revenue grew 10%'' @ newline @ ''Costs fell''\<rparr>))
          [Verification, FinancialAnalysis, InvestmentAnalysis])"
proof -
  have n: "''Revenue grew 10%'' @ newline @ ''Costs fell'' \<noteq> []" by simp
  show ?thesis
    using validate_report extract_reader_ok[of answer_ok fs_report "''data/Report.PDF''"]
      stages_in_fixed_order_with_shared_context
        [OF validate_report extract_reader_ok n refl refl,
         where answer = answer_ok and q = "''summarize risk''" and ?calls0.0 = "[]"]
      stages_in_fixed_order_with_shared_context
        [OF validate_report extract_reader_ok n refl refl,
         where answer = answer_investment_down and q = "''summarize risk''"
           and ?calls0.0 = "[]"]
    by (simp add: answer_ok_def answer_investment_down_def stage_name_def
        truncate_document_def max_chars_def newline_def)
qed

subsection \<open>The task and its retries\<close>

lemma in_session_write:
  "\<not> rolled_back s \<Longrightarrow> in_session s (\<lambda>d. Inr (g d)) = (s\<lparr>tables := g (tables s)\<rparr>, None)"
  by (simp add: in_session_def)

lemma mark_completed_raises:
  "mark_completed db now i results pt uid = Inl e \<Longrightarrow> \<exists>m. e = IntegrityError m"
  by (auto simp: mark_completed_def create_analysis_result_def Let_def split: if_splits)

lemma record_failure_found:
  assumes "\<not> rolled_back s" and "get_analysis (tables s) i = Some a" and "i \<noteq> 0"
    and "message \<noteq> []"
  shows "\<exists>s' a'. record_failure s now (Some i) uid message det = (s', None)
           \<and> get_analysis (tables s') i = Some a'
           \<and> status a' = ''failed'' \<and> error_message a' = Some message"
  using update_analysis_status_found[OF assms(2), of now "''failed''" None "Some message"]
    assms(1,3,4)
  by (auto simp: record_failure_def in_session_write truthy_str_def)


lemma record_failure_rolled_back:
  "rolled_back s \<Longrightarrow> i \<noteq> 0 \<Longrightarrow> \<exists>m. record_failure s now (Some i) uid message det
        = (s, Some (PendingRollbackError m))"
  by (simp add: record_failure_def in_session_def)

text \<open>The session of the \<open>try\<close> block once the job has been set to processing.\<close>

lemma task_try_raises:
  assumes "analyze_financial_document_task_try cap req t0 t1 file_path q fid fname aid uid
             fs db w = (fs1, s1, w1, Inl e)"
  shows "fs1 = fs
       \<and> tables s1 = (case aid of
                 None \<Rightarrow> db
               | Some i \<Rightarrow>
                   if i = 0 then db
                   else fst (update_analysis_status db t0 i ''processing''
                               (Some (request_id req)) None))
       \<and> (rolled_back s1 \<longrightarrow> (\<exists>m. e = IntegrityError m))"
proof (cases "aid = None \<or> aid = Some 0")
  case True
  with assms show ?thesis
    by (auto simp: analyze_financial_document_task_try_def Let_def new_session_def
        split: sum.splits if_splits prod.splits)
next
  case False
  then obtain i where i: "aid = Some i" "i \<noteq> 0" by (cases aid) auto
  show ?thesis
    using assms i
    by (auto simp: analyze_financial_document_task_try_def Let_def new_session_def
        in_session_def dest: mark_completed_raises
        split: sum.splits if_splits prod.splits)
qed

lemma task_try_processing:
  assumes "analyze_financial_document_task_try cap req t0 t1 file_path q fid fname (Some i) uid
             fs db w = (fs1, s1, w1, Inl e)"
    and "get_analysis db i = Some a"
  shows "\<exists>a1. get_analysis (tables s1) i = Some a1"
proof (cases "i = 0")
  case True
  with task_try_raises[OF assms(1)] assms(2) show ?thesis by simp
next
  case False
  with task_try_raises[OF assms(1)]
    update_analysis_status_found[OF assms(2), of t0 "''processing''" "Some (request_id req)" None]
  show ?thesis by auto
qed


lemma req0_fields: "request_id req0 = ''t1''" "retries req0 = 0"
  by (simp_all add: req0_def)


lemma req3_fields: "request_id req3 = ''t1''" "retries req3 = 3"
  by (simp_all add: req3_def)

lemma get_job_queued: "get_analysis db_queued 1 = Some job_queued"
  by (simp add: get_analysis_def db_queued_def job_queued_def)

lemma extract_empty: "extract_pdf_text cap_empty fs p = Inr []"
  by (simp add: cap_empty_def extract_recording split_def strip_def is_space_def newline_def)

lemma processing_update:
  "request_id r = ''t1'' \<Longrightarrow>
   fst (update_analysis_status db_queued 10 1 ''processing'' (Some (request_id r)) None)
     = db_processing"
  by (simp add: update_analysis_status_def db_queued_def job_queued_def db_processing_def
      job_processing_def truthy_str_def Let_def)

lemma run_report:
  "run_financial_analysis_crew (recording reader_ok answer) fs_report ''summarize risk''
     ''data/Report.PDF'' []
   = (if length (takeWhile (\<lambda>s. \<not> isl (answer s ci_report))
                   [Verification, FinancialAnalysis, InvestmentAnalysis, RiskAssessment]) = 4
      then Inr \<lparr>verification = projr (answer Verification ci_report),
                analysis = projr (answer FinancialAnalysis ci_report),
                investment = projr (answer InvestmentAnalysis ci_report),
                risk = projr (answer RiskAssessment ci_report)\<rparr>
      else Inl (projl (answer ([Verification, FinancialAnalysis, InvestmentAnalysis,
                                RiskAssessment]
                 ! length (takeWhile (\<lambda>s. \<not> isl (answer s ci_report))
                     [Verification, FinancialAnalysis, InvestmentAnalysis, RiskAssessment]))
               ci_report)),
      map (\<lambda>s. (s, ci_report))
        (take (Suc (length (takeWhile (\<lambda>s. \<not> isl (answer s ci_report))
                     [Verification, FinancialAnalysis, InvestmentAnalysis, RiskAssessment])))
           [Verification, FinancialAnalysis, InvestmentAnalysis, RiskAssessment]))"
proof -
  have n: "''Revenue grew 10%'' @ newline @ ''Costs fell'' \<noteq> []" by simp
  have c: "ci_report = \<lparr>input_query = ''summarize risk'',
      document_content = truncate_document (''Revenue grew 10%'' @ newline @ ''Costs fell'')\<rparr>"
    by (simp add: ci_report_def truncate_document_def max_chars_def newline_def)
  show ?thesis
    using run_recorded_calls[OF validate_report extract_reader_ok n c refl,
        where answer = answer and ?calls0.0 = "[]"]
    by simp
qed

lemma try_timeout:
  "request_id r = ''t1'' \<Longrightarrow>
   analyze_financial_document_task_try cap_timeout r 10 700 ''data/Report.PDF''
      ''summarize risk'' ''f1'' ''Report.PDF'' (Some 1) None fs_report db_queued []
   = (fs_report, \<lparr>tables = db_processing, rolled_back = False\<rparr>,
      [(Verification, ci_report)], Inl (SoftTimeLimitExceeded ''SoftTimeLimitExceeded()''))"
  using processing_update[of r]
  by (simp add: analyze_financial_document_task_try_def validate_report cap_timeout_def
      run_report in_session_def new_session_def)





lemma failed_update:
  "map status (analyses (fst (update_analysis_status db_processing t 1 ''failed'' None (Some m))))
     = [''failed'']
   \<and> map error_message
        (analyses (fst (update_analysis_status db_processing t 1 ''failed'' None (Some m))))
     = [if m = [] then None else Some m]"
  by (simp add: update_analysis_status_def db_processing_def job_processing_def job_queued_def
      truthy_str_def Let_def)






text \<open>
  C7, as stated, fails on the message: with three retries made, a timed-out attempt raises
  \<open>Exception("Task timeout, retrying...")\<close> and leaves the record failed with the message
  \<open>Task timeout\<close>.
\<close>

theorem timeout_message_counterexample:
  "snd (snd (snd (analyze_financial_document_task cap_timeout req3 10 700 ''data/Report.PDF''
        ''summarize risk'' ''f1'' ''Report.PDF'' (Some 1) None fs_report db_queued [])))
     = Raised (OtherException ''Task timeout, retrying...'')
   \<and> map status (analyses (fst (snd (analyze_financial_document_task cap_timeout req3 10 700
        ''data/Report.PDF'' ''summarize risk'' ''f1'' ''Report.PDF'' (Some 1) None fs_report
        db_queued [])))) = [''failed'']
   \<and> map error_message (analyses (fst (snd (analyze_financial_document_task cap_timeout req3
        10 700 ''data/Report.PDF'' ''summarize risk'' ''f1'' ''Report.PDF'' (Some 1) None
        fs_report db_queued [])))) = [Some ''Task timeout'']
   \<and> Some ''Task timeout'' \<noteq> Some ''timeout, retries exhausted.''"
  using failed_update[of 700 "''Task timeout''"]
  by (simp add: analyze_financial_document_task_def try_timeout[OF req3_fields(1)]
      task_retry_def analysis_max_retries_def req3_fields record_failure_def in_session_def)

text \<open>
  C7, amended. An attempt of a job with a record in which \<open>SoftTimeLimitExceeded\<close> is
  raised sets the record to failed with the message \<open>Task timeout\<close>. With fewer than three
  retries made it schedules the next attempt after 60 seconds; with three retries made it
  schedules nothing and raises \<open>Exception("Task timeout, retrying...")\<close>.
\<close>

theorem soft_time_limit_retried_after_60s:
  assumes "analyze_financial_document_task_try cap req t0 t1 file_path q fid fname (Some i) uid
             fs db w = (fs1, s1, w1, Inl (SoftTimeLimitExceeded m))"
    and "get_analysis db i = Some a" and "i \<noteq> 0"
  shows "\<exists>db' a'.
     analyze_financial_document_task cap req t0 t1 file_path q fid fname (Some i) uid fs db w
       = (fs1, db', w1,
          if retries req < 3
          then RetryScheduled 60 (OtherException ''Task timeout, retrying...'') (retries req + 1)
          else Raised (OtherException ''Task timeout, retrying...''))
     \<and> get_analysis db' i = Some a' \<and> status a' = ''failed''
     \<and> error_message a' = Some ''Task timeout''"
proof -
  from task_try_raises[OF assms(1)] have u: "\<not> rolled_back s1" by auto
  from task_try_processing[OF assms(1,2)]
  obtain a1 where "get_analysis (tables s1) i = Some a1" by blast
  from record_failure_found[OF u this assms(3), of "''Task timeout''" t1 uid "''Task timeout''"]
  obtain s' a' where "record_failure s1 t1 (Some i) uid ''Task timeout'' ''Task timeout''
       = (s', None)" and "get_analysis (tables s') i = Some a'"
    and "status a' = ''failed''" and "error_message a' = Some ''Task timeout''"
    by auto
  with assms(1) show ?thesis
    by (auto simp: analyze_financial_document_task_def task_retry_def analysis_max_retries_def)
qed

theorem soft_time_limit_retried_after_60s_witness:
  "analyze_financial_document_task_try cap_timeout req0 10 700 ''data/Report.PDF''
      ''summarize risk'' ''f1'' ''Report.PDF'' (Some 1) None fs_report db_queued []
     = (fs_report, \<lparr>tables = db_processing, rolled_back = False\<rparr>,
        [(Verification, ci_report)], Inl (SoftTimeLimitExceeded ''SoftTimeLimitExceeded()''))
   \<and> (\<exists>db' a'.
     analyze_financial_document_task cap_timeout req0 10 700 ''data/Report.PDF''
        ''summarize risk'' ''f1'' ''Report.PDF'' (Some 1) None fs_report db_queued []
       = (fs_report, db', [(Verification, ci_report)],
          RetryScheduled 60 (OtherException ''Task timeout, retrying...'') 1)
     \<and> get_analysis db' 1 = Some a' \<and> status a' = ''failed''
     \<and> error_message a' = Some ''Task timeout'')"
proof -
  have r: "request_id req0 = ''t1''" by (simp add: req0_def)
  have h3: "(1::int) \<noteq> 0" by simp
  show ?thesis
    using soft_time_limit_retried_after_60s [OF try_timeout[OF r] get_job_queued h3]
    by (simp add: try_timeout[OF r] req0_fields)
qed




subsection \<open>The periodic cleanup\<close>
lemma cleanup_loop_characterised:
  "distinct paths \<Longrightarrow>
   cleanup_loop now paths fs count errors
   = ((\<lambda>p. if p \<in> set paths \<and> (\<exists>f. fs p = Some f \<and> now - mtime f > 86400 \<and> removable f)
            then None else fs p),
      count + length (filter (\<lambda>p. \<exists>f. fs p = Some f \<and> now - mtime f > 86400 \<and> removable f) paths),
      errors + length (filter (\<lambda>p. fs p = None
                 \<or> (\<exists>f. fs p = Some f \<and> now - mtime f > 86400 \<and> \<not> removable f)) paths))"
proof (induction paths arbitrary: fs count errors)
  case Nil
  then show ?case by simp
next
  case (Cons p ps)
  have d: "distinct ps" and np: "p \<notin> set ps" using Cons.prems by auto
  show ?case
  proof (cases "fs p")
    case None
    then show ?thesis
      using Cons.IH[OF d, of fs count "errors + 1"] np
      by (auto simp: os_path_getmtime_def fun_eq_iff)
  next
    case (Some f)
    show ?thesis
    proof (cases "now - mtime f > 86400")
      case False
      then show ?thesis
        using Some Cons.IH[OF d, of fs count errors] np
        by (auto simp: os_path_getmtime_def older_than_def fun_eq_iff)
    next
      case old: True
      show ?thesis
      proof (cases "removable f")
        case False
        then show ?thesis
          using Some old Cons.IH[OF d, of fs count "errors + 1"] np
          by (auto simp: os_path_getmtime_def os_remove_def older_than_def fun_eq_iff)
      next
        case True
        have f1: "filter (\<lambda>x. \<exists>g. (fs(p := None)) x = Some g \<and> now - mtime g > 86400 \<and> removable g) ps
            = filter (\<lambda>x. \<exists>g. fs x = Some g \<and> now - mtime g > 86400 \<and> removable g) ps"
          using np by (intro filter_cong) auto
        have f2: "filter (\<lambda>x. (fs(p := None)) x = None
                 \<or> (\<exists>g. (fs(p := None)) x = Some g \<and> now - mtime g > 86400 \<and> \<not> removable g)) ps
            = filter (\<lambda>x. fs x = None
                 \<or> (\<exists>g. fs x = Some g \<and> now - mtime g > 86400 \<and> \<not> removable g)) ps"
          using np by (intro filter_cong) auto
        have ih: "cleanup_loop now ps (fs(p := None)) (count + 1) errors
            = ((\<lambda>x. if x \<in> set ps
                       \<and> (\<exists>g. (fs(p := None)) x = Some g \<and> now - mtime g > 86400 \<and> removable g)
                     then None else (fs(p := None)) x),
               count + 1 + length (filter (\<lambda>x. \<exists>g. fs x = Some g \<and> now - mtime g > 86400
                                              \<and> removable g) ps),
               errors + length (filter (\<lambda>x. fs x = None
                   \<or> (\<exists>g. fs x = Some g \<and> now - mtime g > 86400 \<and> \<not> removable g)) ps))"
          by (simp only: Cons.IH[OF d] f1 f2)
        have fn: "(\<lambda>x. if x \<in> set ps
                       \<and> (\<exists>g. (fs(p := None)) x = Some g \<and> now - mtime g > 86400 \<and> removable g)
                     then None else (fs(p := None)) x)
            = (\<lambda>x. if x \<in> set (p # ps)
                       \<and> (\<exists>g. fs x = Some g \<and> now - mtime g > 86400 \<and> removable g)
                     then None else fs x)"
          using Some old True np by (auto simp: fun_eq_iff)
        have step: "cleanup_loop now (p # ps) fs count errors
            = cleanup_loop now ps (fs(p := None)) (count + 1) errors"
          using Some old True by (simp add: os_path_getmtime_def os_remove_def older_than_def)
        show ?thesis
          unfolding step ih fn using Some old True by simp
      qed
    qed
  qed
qed

text \<open>
  C9. For every file system, clock and list of distinct paths the glob yields, the sweep
  removes exactly the listed files that are more than 86400 seconds old and whose removal
  does not fail, and leaves every other file as it was, the younger ones among them. It
  returns the number of files it removed and the number of listed paths on which
  \<open>os.path.getmtime\<close> or \<open>os.remove\<close> raised: a file too old whose removal fails, or
  a path that no longer exists. Every listed path is accounted for, so a failure on one
  does not end the sweep.
\<close>

theorem cleanup_old_files_sweep:
  assumes "distinct paths"
  shows "cleanup_old_files (Inr paths) now fs
     = ((\<lambda>p. if p \<in> set paths
                  \<and> (\<exists>f. fs p = Some f \<and> now - mtime f > 86400 \<and> removable f)
               then None else fs p),
        Cleaned
          (length (filter (\<lambda>p. \<exists>f. fs p = Some f \<and> now - mtime f > 86400 \<and> removable f)
                     paths))
          (length (filter (\<lambda>p. fs p = None
                     \<or> (\<exists>f. fs p = Some f \<and> now - mtime f > 86400 \<and> \<not> removable f))
                     paths)))"
  by (simp add: cleanup_old_files_def cleanup_loop_characterised[OF assms])

theorem cleanup_old_files_sweep_witness:
  "distinct [''data/financial_document_c.pdf'', ''data/financial_document_a.pdf'',
             ''data/financial_document_b.pdf'']
   \<and> cleanup_old_files
        (Inr [''data/financial_document_c.pdf'', ''data/financial_document_a.pdf'',
              ''data/financial_document_b.pdf'']) 100000 fs_data
     = (fs_data(''data/financial_document_a.pdf'' := None), Cleaned 1 1)
   \<and> cleanup_old_files
        (Inr [''data/financial_document_a.pdf'', ''data/financial_document_b.pdf''])
        100000 fs_data
     = (fs_data(''data/financial_document_a.pdf'' := None), Cleaned 1 0)"
proof -
  have d1: "distinct [''data/financial_document_c.pdf'', ''data/financial_document_a.pdf'',
             ''data/financial_document_b.pdf'']" by simp
  have d2: "distinct [''data/financial_document_a.pdf'', ''data/financial_document_b.pdf'']"
    by simp
  show ?thesis
    using d1 cleanup_old_files_sweep [OF d1, of 100000 fs_data]
      cleanup_old_files_sweep [OF d2, of 100000 fs_data]
    by (auto simp: fs_data_def old_file_def young_file_def locked_file_def fun_eq_iff)
qed

subsection \<open>The submission endpoint\<close>
lemma fold_max_lower: "(a::int) \<le> fold max xs a"
proof (induction xs arbitrary: a)
  case Nil
  then show ?case by simp
next
  case (Cons x xs)
  have "a \<le> max x a" by simp
  also have "\<dots> \<le> fold max xs (max x a)" by (rule Cons.IH)
  finally show ?case by simp
qed

lemma fold_max_upper: "x \<in> set xs \<Longrightarrow> (x::int) \<le> fold max xs a"
proof (induction xs arbitrary: a)
  case Nil
  then show ?case by simp
next
  case (Cons y ys)
  show ?case
  proof (cases "x = y")
    case True
    have "x \<le> max y a" using True by simp
    also have "\<dots> \<le> fold max ys (max y a)" by (rule fold_max_lower)
    finally show ?thesis by simp
  next
    case False
    with Cons.prems have "x \<in> set ys" by simp
    from Cons.IH[OF this] show ?thesis by simp
  qed
qed

lemma next_ident_fresh: "find (\<lambda>a. ident a = next_ident (map ident xs)) xs = None"
proof -
  have "\<And>x. x \<in> set xs \<Longrightarrow> ident x < next_ident (map ident xs)"
  proof -
    fix x assume "x \<in> set xs"
    then have "ident x \<in> set (map ident xs)" by simp
    from fold_max_upper[OF this, of 0] show "ident x < next_ident (map ident xs)"
      by (simp add: next_ident_def)
  qed
  then show ?thesis by (fastforce simp: find_None_iff)
qed

lemma find_append_new:
  "find P xs = None \<Longrightarrow> P a \<Longrightarrow> find P (xs @ [a]) = Some a"
  by (induction xs) (auto split: if_splits)

text \<open>
  A record made by \<open>create_analysis\<close> is queued, and a status query for its id reads it.
  The endpoint does not call \<open>create_analysis\<close>.
\<close>

lemma create_analysis_queued:
  "status (snd (create_analysis db now f n q' u)) = ''queued''
   \<and> get_analysis (fst (create_analysis db now f n q' u))
        (ident (snd (create_analysis db now f n q' u)))
       = Some (snd (create_analysis db now f n q' u))"
  by (simp add: create_analysis_def get_analysis_def Let_def find_append_new next_ident_fresh)

lemma remove_uploaded:
  "remove_if_exists (fs(p \<mapsto> \<lparr>content = c, mtime = t, readable = True, removable = True\<rparr>)) p
   = fs(p := None)"
  by (simp add: remove_if_exists_def os_path_exists_def os_remove_def)

lemma validate_uploaded:
  "validate_pdf_file fs_uploaded ''data/financial_document_abc.pdf'' = Inr True"
  by (simp add: validate_pdf_file_def validate_pdf_file_try_def fs_uploaded_def upload_ok_def
      os_path_exists_def os_path_getsize_def open_read_def endswith_def lower_def
      lower_char_def MAX_FILE_SIZE_def)

lemma run_uploaded_ok:
  "run_financial_analysis_crew cap_ok fs_uploaded ''summarize risk''
     ''data/financial_document_abc.pdf'' []
   = (Inr \<lparr>verification = ''verified'', analysis = ''analysed'', investment = ''advised'',
          risk = ''assessed''\<rparr>,
      map (\<lambda>s. (s, ci_report))
        [Verification, FinancialAnalysis, InvestmentAnalysis, RiskAssessment])"
proof -
  have n: "''Revenue grew 10%'' @ newline @ ''Costs fell'' \<noteq> []" by simp
  have c: "ci_report = \<lparr>input_query = ''summarize risk'',
      document_content = truncate_document (''Revenue grew 10%'' @ newline @ ''Costs fell'')\<rparr>"
    by (simp add: ci_report_def truncate_document_def max_chars_def newline_def)
  show ?thesis
    using run_recorded_calls[OF validate_uploaded extract_reader_ok n c refl,
        where answer = answer_ok and ?calls0.0 = "[]"]
    by (simp add: cap_ok_def answer_ok_def stage_name_def)
qed

lemma run_uploaded_empty:
  "run_financial_analysis_crew cap_empty fs_uploaded ''summarize risk''
     ''data/financial_document_abc.pdf'' []
   = (Inl (ValueError ''Could not extract text from PDF''), [])"
  by (simp add: run_financial_analysis_crew_def validate_uploaded extract_empty)

lemma upload_ok_accepted:
  "endswith (lower (upload_filename upload_ok)) ''.pdf''"
  "length (upload_content upload_ok) \<le> MAX_FILE_SIZE"
  "startswith (upload_content upload_ok) ''%PDF''"
  by (simp_all add: upload_ok_def endswith_def startswith_def lower_def lower_char_def
      MAX_FILE_SIZE_def)

lemma db_empty_analyses: "analyses db_empty = []"
  by (simp add: db_empty_def)

lemma strip_query: "strip ''  summarize risk '' = ''summarize risk''"
  by (simp add: strip_def is_space_def)

lemma uploaded_path:
  "''data/financial_document_abc.pdf'' = ''data/financial_document_'' @ ''abc'' @ ''.pdf''"
  by simp

lemma uploaded_query:
  "''summarize risk''
     = strip (if ''  summarize risk '' = [] \<or> strip ''  summarize risk '' = []
              then default_query else ''  summarize risk '')"
  by (simp add: strip_query)

lemma uploaded_fs:
  "fs_uploaded = fs_none(''data/financial_document_abc.pdf'' \<mapsto>
      \<lparr>content = upload_content upload_ok, mtime = 10, readable = True, removable = True\<rparr>)"
  by (simp add: fs_uploaded_def)

lemma save_analysis_fresh:
  assumes "get_analysis_by_file_id db fid = None"
  shows "(\<exists>a. analyses (save_analysis_or_roll_back db now fid fname q results)
                = analyses db @ [a]
              \<and> file_id a = fid \<and> status a = ''completed'' \<and> completed_at a = Some now)
         \<and> length (analysis_results (save_analysis_or_roll_back db now fid fname q results))
             = length (analysis_results db) + 1"
  using assms
  by (simp add: save_analysis_or_roll_back_def save_analysis_def in_session_def
      new_session_def get_analysis_by_file_id_def Let_def)

lemma save_analysis_taken:
  assumes "get_analysis_by_file_id db fid \<noteq> None"
  shows "save_analysis_or_roll_back db now fid fname q results = db"
  using assms
  by (simp add: save_analysis_or_roll_back_def save_analysis_def in_session_def
      new_session_def get_analysis_by_file_id_def)

text \<open>
  C1, as stated, fails. An upload that passes the endpoint's checks and whose PDF yields no
  text makes the call raise an HTTP 400 error, and no job record exists afterwards to query.
  With a pipeline that succeeds, the record the call leaves has status \<open>completed\<close>, not
  \<open>queued\<close>.
\<close>

theorem submission_fails_or_completes_counterexample:
  "snd (snd (snd (snd (analyze_financial_document_endpoint cap_empty 10 ''abc'' upload_ok
        ''  summarize risk '' fs_none outs_none db_empty []))))
     = Inl (HTTPException 400 ''Validation error: Could not extract text from PDF'')
   \<and> analyses (fst (snd (snd (analyze_financial_document_endpoint cap_empty 10 ''abc''
        upload_ok ''  summarize risk '' fs_none outs_none db_empty [])))) = []
   \<and> map status (analyses (fst (snd (snd (analyze_financial_document_endpoint cap_ok 10
        ''abc'' upload_ok ''  summarize risk '' fs_none outs_none db_empty []))))) = [''completed'']"
proof -
  have t1: "analyze_endpoint_try cap_empty 10 ''abc'' upload_ok ''  summarize risk '' fs_none
        outs_none db_empty []
      = (fs_uploaded, outs_none, db_empty, [],
         Inl (Py (ValueError ''Could not extract text from PDF'')))"
    using upload_ok_accepted
    by (simp add: analyze_endpoint_try_def Let_def strip_query uploaded_fs[symmetric]
        run_uploaded_empty)
  have s: "map status (analyses (save_analysis_or_roll_back db_empty 10 ''abc'' f q r))
      = [''completed'']" for f q r
    by (simp add: save_analysis_or_roll_back_def save_analysis_def in_session_def
        new_session_def db_empty_def Let_def)
  have t2: "fst (snd (snd (analyze_endpoint_try cap_ok 10 ''abc'' upload_ok
        ''  summarize risk '' fs_none outs_none db_empty [])))
      = save_analysis_or_roll_back db_empty 10 ''abc'' (upload_filename upload_ok)
          ''summarize risk''
          \<lparr>verification = ''verified'', analysis = ''analysed'', investment = ''advised'',
           risk = ''assessed''\<rparr>"
    using upload_ok_accepted
    by (simp add: analyze_endpoint_try_def Let_def strip_query uploaded_fs[symmetric]
        run_uploaded_ok)
  show ?thesis
    using t2
    by (simp add: analyze_financial_document_endpoint_def t1 split_beta s db_empty_analyses)
qed

text \<open>
  C1, amended. For an upload that passes the endpoint's checks (a file name ending in
  \<open>.pdf\<close>, at most \<open>MAX_FILE_SIZE\<close> bytes, a \<open>%PDF\<close> header) the endpoint runs the
  analysis on the saved upload before it answers, and removes the upload in both outcomes.
  When the analysis raises, the call raises an HTTP error: 404 when the exception is a
  \<open>FileNotFoundError\<close>, 400 when it is a \<open>ValueError\<close>, 500 otherwise; the database and
  the output files are as before the call. When the analysis returns, the call returns the
  file id, the file name, the stripped query, the four results and the output path. Then, if
  no job record has that file id, one job record with that file id, status \<open>completed\<close>
  and \<open>completed_at\<close> the time of the call is appended, with one result row; if a record
  has that file id, the save fails and is rolled back, the database is as before the call,
  and the call still returns the results.
\<close>

theorem endpoint_runs_pipeline_before_answering:
  assumes "endswith (lower (upload_filename file)) ''.pdf''"
    and "length (upload_content file) \<le> MAX_FILE_SIZE"
    and "startswith (upload_content file) ''%PDF''"
    and "file_path = ''data/financial_document_'' @ fid @ ''.pdf''"
    and "q = strip (if query0 = [] \<or> strip query0 = [] then default_query else query0)"
    and "fs1 = fs(file_path \<mapsto> \<lparr>content = upload_content file, mtime = now,
                                 readable = True, removable = True\<rparr>)"
  shows "case run_financial_analysis_crew cap fs1 q file_path w of
           (Inl e, w1) \<Rightarrow>
             analyze_financial_document_endpoint cap now fid file query0 fs outs db w
               = (fs(file_path := None), outs, db, w1,
                  Inl (case e of
                         FileNotFoundError m \<Rightarrow>
                           HTTPException 404 (''File processing error: '' @ m)
                       | ValueError m \<Rightarrow> HTTPException 400 (''Validation error: '' @ m)
                       | _ \<Rightarrow> HTTPException 500
                              (''Error processing financial document: '' @ str_exn e)))
         | (Inr results, w1) \<Rightarrow>
             (\<exists>outs' db'.
                analyze_financial_document_endpoint cap now fid file query0 fs outs db w
                  = (fs(file_path := None), outs', db', w1,
                     Inr \<lparr>response_file_id = fid,
                          response_filename = upload_filename file,
                          response_query = q, response_results = results,
                          response_output_file = ''outputs/analysis_'' @ fid @ ''.json''\<rparr>)
                \<and> (if get_analysis_by_file_id db fid = None
                   then (\<exists>a. analyses db' = analyses db @ [a]
                            \<and> file_id a = fid \<and> status a = ''completed''
                            \<and> completed_at a = Some now)
                        \<and> length (analysis_results db') = length (analysis_results db) + 1
                   else db' = db))"
proof (cases "run_financial_analysis_crew cap fs1 q file_path w")
  case (Pair res w1)
  show ?thesis
  proof (cases res)
    case (Inl e)
    with Pair show ?thesis
      using assms
      by (cases e)
         (simp_all add: analyze_financial_document_endpoint_def analyze_endpoint_try_def
            Let_def remove_uploaded)
  next
    case (Inr results)
    show ?thesis
    proof (cases "get_analysis_by_file_id db fid = None")
      case True
      with Pair Inr save_analysis_fresh[OF True, of now "upload_filename file" q results]
      show ?thesis
        using assms
        by (simp add: analyze_financial_document_endpoint_def analyze_endpoint_try_def
            Let_def remove_uploaded)
    next
      case False
      with Pair Inr save_analysis_taken[OF False, of now "upload_filename file" q results]
      show ?thesis
        using assms
        by (simp add: analyze_financial_document_endpoint_def analyze_endpoint_try_def
            Let_def remove_uploaded)
    qed
  qed
qed

theorem endpoint_runs_pipeline_before_answering_witness:
  "endswith (lower (upload_filename upload_ok)) ''.pdf''
   \<and> length (upload_content upload_ok) \<le> MAX_FILE_SIZE
   \<and> startswith (upload_content upload_ok) ''%PDF''
   \<and> (\<exists>outs' db'.
        analyze_financial_document_endpoint cap_ok 10 ''abc'' upload_ok ''  summarize risk ''
            fs_none outs_none db_empty []
          = (fs_none(''data/financial_document_abc.pdf'' := None), outs', db',
             map (\<lambda>s. (s, ci_report))
               [Verification, FinancialAnalysis, InvestmentAnalysis, RiskAssessment],
             Inr \<lparr>response_file_id = ''abc'', response_filename = ''Report.PDF'',
                  response_query = ''summarize risk'',
                  response_results = \<lparr>verification = ''verified'', analysis = ''analysed'',
                     investment = ''advised'', risk = ''assessed''\<rparr>,
                  response_output_file = ''outputs/analysis_abc.json''\<rparr>)
        \<and> (\<exists>a. analyses db' = [a]
               \<and> file_id a = ''abc'' \<and> status a = ''completed''
               \<and> completed_at a = Some 10)
        \<and> length (analysis_results db') = 1)
   \<and> (\<exists>outs'.
        analyze_financial_document_endpoint cap_ok 10 ''abc'' upload_ok ''  summarize risk ''
            fs_none outs_none db_taken []
          = (fs_none(''data/financial_document_abc.pdf'' := None), outs', db_taken,
             map (\<lambda>s. (s, ci_report))
               [Verification, FinancialAnalysis, InvestmentAnalysis, RiskAssessment],
             Inr \<lparr>response_file_id = ''abc'', response_filename = ''Report.PDF'',
                  response_query = ''summarize risk'',
                  response_results = \<lparr>verification = ''verified'', analysis = ''analysed'',
                     investment = ''advised'', risk = ''assessed''\<rparr>,
                  response_output_file = ''outputs/analysis_abc.json''\<rparr>))
   \<and> analyze_financial_document_endpoint cap_empty 10 ''abc'' upload_ok ''  summarize risk ''
          fs_none outs_none db_empty []
        = (fs_none(''data/financial_document_abc.pdf'' := None), outs_none, db_empty, [],
           Inl (HTTPException 400 ''Validation error: Could not extract text from PDF''))"
proof -
  have a: "get_analysis_by_file_id db_empty ''abc'' = None"
    by (simp add: get_analysis_by_file_id_def db_empty_def)
  have b: "get_analysis_by_file_id db_taken ''abc'' \<noteq> None"
    by (simp add: get_analysis_by_file_id_def db_taken_def)
  have u: "upload_filename upload_ok = ''Report.PDF''"
    by (simp add: upload_ok_def)
  show ?thesis
    using upload_ok_accepted
      endpoint_runs_pipeline_before_answering
        [OF upload_ok_accepted uploaded_path uploaded_query uploaded_fs,
         where cap = cap_ok and outs = outs_none and db = db_empty and w = "[]"]
      endpoint_runs_pipeline_before_answering
        [OF upload_ok_accepted uploaded_path uploaded_query uploaded_fs,
         where cap = cap_ok and outs = outs_none and db = db_taken and w = "[]"]
      endpoint_runs_pipeline_before_answering
        [OF upload_ok_accepted uploaded_path uploaded_query uploaded_fs,
         where cap = cap_empty and outs = outs_none and db = db_empty and w = "[]"]
    by (simp add: run_uploaded_ok run_uploaded_empty a b u db_empty_analyses)
       (simp add: db_empty_def)
qed

subsection \<open>Validation\<close>
text \<open>
  C10. For every file system and path, \<open>validate_pdf_file\<close> returns a boolean and never
  raises. The boolean is true exactly when the file exists, the lower-cased path ends with
  \<open>.pdf\<close>, reading the size succeeds with at most 10485760 bytes, and reading the first
  four bytes succeeds with \<open>%PDF\<close>; an exception in any of the checks gives false.
\<close>

theorem validate_pdf_file_total_iff:
  "validate_pdf_file fs file_path =
     Inr (os_path_exists fs file_path
          \<and> endswith (lower file_path) ''.pdf''
          \<and> (\<exists>n. os_path_getsize fs file_path = Inr n \<and> n \<le> 10485760)
          \<and> open_read fs file_path 4 = Inr ''%PDF'')"
  by (auto simp: validate_pdf_file_def validate_pdf_file_try_def MAX_FILE_SIZE_def
      split: sum.splits)

theorem validate_pdf_file_total_iff_witness:
  "validate_pdf_file fs_report ''data/Report.PDF'' = Inr True
   \<and> validate_pdf_file fs_report ''data/missing.pdf'' = Inr False"
  using validate_pdf_file_total_iff [of fs_report "''data/Report.PDF''"]
    validate_pdf_file_total_iff [of fs_report "''data/missing.pdf''"]
  by (simp add: fs_report_def pdf_file_def os_path_exists_def os_path_getsize_def
      open_read_def endswith_def lower_def lower_char_def)

end
